theory Spec2Isabelle
  imports Main "HOL-Library.Char_ord" "HOL-Library.List_Lexorder" "HOL-Library.Multiset"
begin

section \<open>Python values shared by the modules\<close>

text \<open>
  A Python \<open>dict\<close> keeps its entries in insertion order. It is an association list with
  pairwise different keys: assigning to a key that is present replaces the value where
  it stands, assigning to a new key appends the entry, \<open>del\<close> drops the entry.
\<close>

fun dict_set :: "('k \<times> 'v) list \<Rightarrow> 'k \<Rightarrow> 'v \<Rightarrow> ('k \<times> 'v) list" where
  "dict_set [] k v = [(k, v)]"
| "dict_set ((k', v') # d) k v =
     (if k' = k then (k, v) # d else (k', v') # dict_set d k v)"

definition dict_get :: "('k \<times> 'v) list \<Rightarrow> 'k \<Rightarrow> 'v option" where
  "dict_get d k = map_of d k"

definition dict_del :: "('k \<times> 'v) list \<Rightarrow> 'k \<Rightarrow> ('k \<times> 'v) list" where
  "dict_del d k = filter (\<lambda>e. fst e \<noteq> k) d"

definition dict_keys :: "('k \<times> 'v) list \<Rightarrow> 'k list" where
  "dict_keys d = map fst d"

definition dict_values :: "('k \<times> 'v) list \<Rightarrow> 'v list" where
  "dict_values d = map snd d"

text \<open>The exceptions the modelled code can raise.\<close>

datatype py_error =
  KeyError string
  | TypeError
  | AttributeError
  | IndexError
  | ValueError string
  | OSError
  | JSONDecodeError

section \<open>bots/message.py: the reply target\<close>

text \<open>\<open>Message.to\<close> is annotated \<open>list[str] | str\<close>.\<close>

datatype recipients = ToMany "string list" | ToOne string

record message =
  msg_type :: string
  subject :: "string option"
  to :: recipients

section \<open>bots/arxiv/requests.py: requests and the request list\<close>

text \<open>
  The dataclass \<open>Request\<close>. The field \<open>id\<close> (the conversation key, a tuple of strings)
  is \<open>id_req\<close> here, since \<open>id\<close> is the identity function of HOL.
\<close>

record request =
  id_req :: "string list"
  uuid :: string
  query :: string
  owner_id :: int
  message :: message

text \<open>\<open>Request.__eq__\<close>: two requests are equal when their \<open>id\<close> fields are.\<close>

definition request_eq :: "request \<Rightarrow> request \<Rightarrow> bool" where
  "request_eq r other = (id_req r = id_req other)"

text \<open>\<open>RequestList.requests\<close>: a dict from uuid to request.\<close>

type_synonym request_list = "(string \<times> request) list"

text \<open>
  \<open>RequestList.add\<close>: the returned pair is the boolean the method returns and the
  request list after the call.
\<close>

definition add :: "request_list \<Rightarrow> request \<Rightarrow> bool \<times> request_list" where
  "add rl request =
     (if list_ex (\<lambda>r. request_eq r request) (dict_values rl) then (False, rl)
      else (True, dict_set rl (uuid request) request))"

text \<open>\<open>RequestList.remove\<close>, named \<open>remove_req\<close> beside HOL's \<open>remove\<close> on sets.\<close>

definition remove_req :: "request_list \<Rightarrow> string \<Rightarrow> bool \<times> request_list" where
  "remove_req rl k =
     (if k \<notin> set (dict_keys rl) then (False, rl) else (True, dict_del rl k))"

text \<open>\<open>RequestList.get\<close> and \<open>RequestList.ids\<close>.\<close>

definition get :: "request_list \<Rightarrow> string \<Rightarrow> request option" where
  "get rl k = dict_get rl k"

definition ids :: "request_list \<Rightarrow> string list" where
  "ids rl = dict_keys rl"

subsection \<open>Facts about dicts\<close>

lemma dict_get_dict_set_same: "dict_get (dict_set d k v) k = Some v"
  by (induction d) (auto simp: dict_get_def)

lemma dict_get_dict_set_other: "k' \<noteq> k \<Longrightarrow> dict_get (dict_set d k v) k' = dict_get d k'"
  by (induction d) (auto simp: dict_get_def)

lemma dict_keys_dict_set:
  "dict_keys (dict_set d k v) = (if k \<in> set (dict_keys d) then dict_keys d else dict_keys d @ [k])"
  by (induction d) (force simp: dict_keys_def)+

lemma dict_set_fresh: "k \<notin> set (dict_keys d) \<Longrightarrow> dict_set d k v = d @ [(k, v)]"
  by (induction d) (auto simp: dict_keys_def)

subsection \<open>Adding a request\<close>

definition example_reply :: message where
  "example_reply = \<lparr>msg_type = ''stream'', subject = Some ''ml'', to = ToOne ''research''\<rparr>"

definition example_request :: "string \<Rightarrow> string list \<Rightarrow> string \<Rightarrow> int \<Rightarrow> request" where
  "example_request u k q ow =
     \<lparr>id_req = k, uuid = u, query = q, owner_id = ow, message = example_reply\<rparr>"

text \<open>
  C1. \<open>add\<close> returns \<open>False\<close> and leaves the request list as it was when some stored
  request has the conversation key of the new one, whatever their queries, owners and
  uuids are. Otherwise it returns \<open>True\<close>, the new request is stored under its uuid,
  and every other key holds what it held before.
\<close>

theorem add_dedup_on_conversation_key:
  "((\<exists>r \<in> set (dict_values rl). id_req r = id_req request) \<longrightarrow>
      add rl request = (False, rl)) \<and>
   ((\<forall>r \<in> set (dict_values rl). id_req r \<noteq> id_req request) \<longrightarrow>
      fst (add rl request) = True \<and>
      get (snd (add rl request)) (uuid request) = Some request \<and>
      (\<forall>k. k \<noteq> uuid request \<longrightarrow> get (snd (add rl request)) k = get rl k))"
proof (cases "list_ex (\<lambda>r. request_eq r request) (dict_values rl)")
  case True
  then show ?thesis
    by (auto simp: add_def list_ex_iff request_eq_def)
next
  case False
  then have fresh: "\<forall>r \<in> set (dict_values rl). id_req r \<noteq> id_req request"
    by (auto simp: list_ex_iff request_eq_def)
  have res: "add rl request = (True, dict_set rl (uuid request) request)"
    using False by (simp add: add_def)
  show ?thesis
    using fresh
    by (auto simp: res get_def dict_get_dict_set_same dict_get_dict_set_other)
qed

theorem add_dedup_on_conversation_key_witness:
  "add [(''u1'', example_request ''u1'' [''research'', ''ml''] ''cat:cs.LG'' 42)]
       (example_request ''u2'' [''research'', ''ml''] ''all:GAN'' 7)
     = (False, [(''u1'', example_request ''u1'' [''research'', ''ml''] ''cat:cs.LG'' 42)]) \<and>
   fst (add [(''u1'', example_request ''u1'' [''research'', ''ml''] ''cat:cs.LG'' 42)]
       (example_request ''u2'' [''research'', ''ai''] ''all:GAN'' 7)) = True \<and>
   get (snd (add [(''u1'', example_request ''u1'' [''research'', ''ml''] ''cat:cs.LG'' 42)]
       (example_request ''u2'' [''research'', ''ai''] ''all:GAN'' 7))) ''u2''
     = Some (example_request ''u2'' [''research'', ''ai''] ''all:GAN'' 7)"
  using add_dedup_on_conversation_key
      [of "[(''u1'', example_request ''u1'' [''research'', ''ml''] ''cat:cs.LG'' 42)]"
          "example_request ''u2'' [''research'', ''ml''] ''all:GAN'' 7"]
    add_dedup_on_conversation_key
      [of "[(''u1'', example_request ''u1'' [''research'', ''ml''] ''cat:cs.LG'' 42)]"
          "example_request ''u2'' [''research'', ''ai''] ''all:GAN'' 7"]
  by (simp add: dict_values_def example_request_def)

section \<open>The conversation-identity resolvers\<close>

text \<open>
  The result of a call: the value returned, the exception raised, or \<open>Outside\<close> when the
  input holds a value that is not of the type the source annotates or documents, at a
  place where Python performs no check of its own. The embedding follows the annotated
  types and says nothing about a computation that is \<open>Outside\<close>.
\<close>

datatype 'a outcome = Returns 'a | Raises py_error | Outside

fun raised :: "'a outcome \<Rightarrow> bool" where
  "raised (Raises e) = True"
| "raised (Returns x) = False"
| "raised Outside = False"

text \<open>Python's \<open>str\<close> of an \<open>int\<close>: the decimal digits, after a minus sign when negative.\<close>

definition digit_char :: "nat \<Rightarrow> char" where
  "digit_char d = ''0123456789'' ! d"

fun digits10 :: "nat \<Rightarrow> string" where
  "digits10 n =
     (if n < 10 then [digit_char n] else digits10 (n div 10) @ [digit_char (n mod 10)])"

declare digits10.simps [simp del]

definition str_int :: "int \<Rightarrow> string" where
  "str_int i = (if i < 0 then CHR ''-'' # digits10 (nat (- i)) else digits10 (nat i))"

text \<open>
  The part of a Zulip message the resolvers read: \<open>message["type"]\<close>,
  \<open>message["display_recipient"]\<close> (a list of user dicts in a private message, the
  stream's name in a stream message) and \<open>message["subject"]\<close> (\<open>None\<close> when the key is
  absent). A user dict is read at \<open>"id"\<close> and \<open>"email"\<close>.
\<close>

record user =
  user_id :: int
  email :: string

datatype recipient = Users "user list" | StreamName string

record zulip_message =
  z_type :: string
  display_recipient :: recipient
  z_subject :: "string option"

text \<open>
  \<open>Arxiv.get_request_id_from_zulip_message\<close>. Iterating over a stream name in the
  private branch yields its characters, and \<open>user["id"]\<close> on a character is a
  \<open>TypeError\<close>. \<open>str\<close> of a list of user dicts in the stream branch is not followed.
\<close>

definition get_request_id_from_zulip_message :: "zulip_message \<Rightarrow> string list outcome" where
  "get_request_id_from_zulip_message m =
     (if z_type m = ''private'' then
        (case display_recipient m of
           Users us \<Rightarrow> Returns (sort (map (\<lambda>u. str_int (user_id u)) us))
         | StreamName s \<Rightarrow> (if s = [] then Returns [] else Raises TypeError))
      else if z_type m = ''stream'' then
        (case z_subject m of
           None \<Rightarrow> Raises (KeyError ''subject'')
         | Some t \<Rightarrow>
             (case display_recipient m of
                StreamName s \<Rightarrow> Returns [s, t]
              | Users us \<Rightarrow> Outside))
      else Raises (ValueError (''Unknown message type: '' @ z_type m)))"

text \<open>
  \<open>Kita.get_conversation_id\<close>: a tuple of the participants' ids (numbers) for a private
  message, the pair of stream name and topic for a stream message, \<open>None\<close> otherwise.
\<close>

datatype conversation_id = UserIds "int list" | StreamTopic string string

definition get_conversation_id :: "zulip_message \<Rightarrow> conversation_id option outcome" where
  "get_conversation_id m =
     (if z_type m = ''private'' then
        (case display_recipient m of
           Users us \<Rightarrow> Returns (Some (UserIds (sort (map user_id us))))
         | StreamName s \<Rightarrow> (if s = [] then Returns (Some (UserIds [])) else Raises TypeError))
      else if z_type m = ''stream'' then
        (case z_subject m of
           None \<Rightarrow> Raises (KeyError ''subject'')
         | Some t \<Rightarrow>
             (case display_recipient m of
                StreamName s \<Rightarrow> Returns (Some (StreamTopic s t))
              | Users us \<Rightarrow> Outside))
      else Returns None)"


definition private_message :: "user list \<Rightarrow> zulip_message" where
  "private_message us =
     \<lparr>z_type = ''private'', display_recipient = Users us, z_subject = None\<rparr>"

definition user9 :: user where
  "user9 = \<lparr>user_id = 9, email = ''ada@example.org''\<rparr>"

definition user10 :: user where
  "user10 = \<lparr>user_id = 10, email = ''bob@example.org''\<rparr>"

lemma sort_mset_cong: "mset xs = mset ys \<Longrightarrow> sort xs = sort ys"
  by (rule properties_for_sort) simp_all

text \<open>
  C3. In a private message the key does not depend on the order in which the payload
  lists the participants: both resolvers return the same key for a participant list
  and for any permutation of it.
\<close>

theorem private_key_permutation_invariant:
  assumes "z_type m = ''private''" and "mset us' = mset us"
  shows "(\<exists>key. get_request_id_from_zulip_message (m\<lparr>display_recipient := Users us'\<rparr>)
                   = Returns key \<and>
               get_request_id_from_zulip_message (m\<lparr>display_recipient := Users us\<rparr>)
                   = Returns key) \<and>
         (\<exists>cid. get_conversation_id (m\<lparr>display_recipient := Users us'\<rparr>) = Returns cid \<and>
               get_conversation_id (m\<lparr>display_recipient := Users us\<rparr>) = Returns cid)"
proof -
  have strs: "mset (map (\<lambda>u. str_int (user_id u)) us') = mset (map (\<lambda>u. str_int (user_id u)) us)"
    using assms(2) by (metis mset_map)
  have nums: "mset (map user_id us') = mset (map user_id us)"
    using assms(2) by (metis mset_map)
  show ?thesis
    using assms(1) sort_mset_cong [OF strs] sort_mset_cong [OF nums]
    by (simp add: get_request_id_from_zulip_message_def get_conversation_id_def)
qed

theorem private_key_permutation_invariant_witness:
  "mset [user10, user9] = mset [user9, user10] \<and>
   get_request_id_from_zulip_message (private_message [user10, user9])
     = get_request_id_from_zulip_message (private_message [user9, user10]) \<and>
   get_conversation_id (private_message [user10, user9])
     = get_conversation_id (private_message [user9, user10])"
proof -
  have ty: "z_type (private_message []) = ''private''"
    by (simp add: private_message_def)
  have perm: "mset [user10, user9] = mset [user9, user10]"
    by simp
  show ?thesis
    using private_key_permutation_invariant [OF ty perm] perm
    by (auto simp: private_message_def)
qed




text \<open>
  C5, as the code has it. For a message whose type is neither \<open>private\<close> nor \<open>stream\<close>
  the arxiv resolver raises \<open>ValueError\<close>, and the kita resolver raises nothing: it
  returns \<open>None\<close>.
\<close>

theorem unsupported_type_by_variant:
  assumes "z_type m \<noteq> ''private''" and "z_type m \<noteq> ''stream''"
  shows "get_request_id_from_zulip_message m
           = Raises (ValueError (''Unknown message type: '' @ z_type m)) \<and>
         get_conversation_id m = Returns None"
  using assms by (simp add: get_request_id_from_zulip_message_def get_conversation_id_def)

definition huddle_message :: zulip_message where
  "huddle_message =
     \<lparr>z_type = ''huddle'', display_recipient = Users [user9, user10], z_subject = None\<rparr>"

theorem unsupported_type_by_variant_witness:
  "get_request_id_from_zulip_message huddle_message
     = Raises (ValueError ''Unknown message type: huddle'') \<and>
   get_conversation_id huddle_message = Returns None"
proof -
  have a: "z_type huddle_message \<noteq> ''private''" and b: "z_type huddle_message \<noteq> ''stream''"
    by (simp_all add: huddle_message_def)
  show ?thesis
    using unsupported_type_by_variant [OF a b] by (simp add: huddle_message_def)
qed

text \<open>
  The claim C5 as it is worded fails in the kita variant: for a message of type
  \<open>huddle\<close> its resolver does not raise.
\<close>

theorem kita_unsupported_type_no_error:
  "get_conversation_id huddle_message = Returns None \<and>
   \<not> raised (get_conversation_id huddle_message)"
  by (simp add: get_conversation_id_def huddle_message_def)

section \<open>bots/arxiv/arxiv.py: filtering the search results\<close>

text \<open>
  A search result, with the fields \<open>send_updates_to_single_request\<close> reads. The publish
  time and the cutoff are instants on one time line, here integers (microseconds since
  the epoch); the code compares them with \<open>>\<close>.
\<close>

record result =
  title :: string
  entry_id :: string
  published :: int

definition result_line :: "result \<Rightarrow> string" where
  "result_line r = ''- ['' @ title r @ '']('' @ entry_id r @ '')''"

text \<open>
  The loop over \<open>search.results()\<close>: a result published after the cutoff appends its
  line, the first other result ends the loop (\<open>break\<close>).
\<close>

fun scan_results :: "int \<Rightarrow> result list \<Rightarrow> string list \<Rightarrow> string list" where
  "scan_results yesterday_7am [] text_lines = text_lines"
| "scan_results yesterday_7am (r # rs) text_lines =
     (if published r > yesterday_7am
      then scan_results yesterday_7am rs (text_lines @ [result_line r])
      else text_lines)"

text \<open>The full scan of the specification: every result published after the cutoff.\<close>

definition full_scan :: "int \<Rightarrow> result list \<Rightarrow> string list" where
  "full_scan cutoff rs = map result_line (filter (\<lambda>r. published r > cutoff) rs)"

text \<open>Results sorted by descending publish time.\<close>

definition newest_first :: "result list \<Rightarrow> bool" where
  "newest_first rs = sorted_wrt (\<lambda>a b. published a \<ge> published b) rs"

lemma scan_results_acc:
  "scan_results c rs acc = acc @ map result_line (takeWhile (\<lambda>r. published r > c) rs)"
  by (induction rs arbitrary: acc) auto

lemma takeWhile_newest_first:
  "newest_first rs \<Longrightarrow>
     takeWhile (\<lambda>r. published r > c) rs = filter (\<lambda>r. published r > c) rs"
proof (induction rs)
  case Nil
  then show ?case by simp
next
  case (Cons r rs)
  show ?case
  proof (cases "published r > c")
    case True
    with Cons show ?thesis by (simp add: newest_first_def)
  next
    case False
    have "\<forall>x \<in> set rs. \<not> published x > c"
      using Cons.prems False by (auto simp: newest_first_def)
    then have "filter (\<lambda>r. published r > c) rs = []"
      by (simp add: filter_empty_conv)
    with False show ?thesis by simp
  qed
qed

text \<open>
  C9. On results sorted by descending publish time, the loop that stops at the first
  result not published after the cutoff collects the same lines as a scan of all of
  them that keeps the results published after the cutoff.
\<close>

theorem early_exit_equals_full_scan:
  "newest_first rs \<Longrightarrow> scan_results cutoff rs [] = full_scan cutoff rs"
  by (simp add: scan_results_acc takeWhile_newest_first full_scan_def)

definition paper :: "string \<Rightarrow> int \<Rightarrow> result" where
  "paper t p = \<lparr>title = t, entry_id = ''http://arxiv.org/abs/'' @ t, published = p\<rparr>"

theorem early_exit_equals_full_scan_witness:
  "newest_first [paper ''c'' 30, paper ''b'' 20, paper ''a'' 10] \<and>
   scan_results 15 [paper ''c'' 30, paper ''b'' 20, paper ''a'' 10] []
     = full_scan 15 [paper ''c'' 30, paper ''b'' 20, paper ''a'' 10] \<and>
   full_scan 15 [paper ''c'' 30, paper ''b'' 20, paper ''a'' 10]
     = [''- [c](http://arxiv.org/abs/c)'', ''- [b](http://arxiv.org/abs/b)'']"
proof -
  have srt: "newest_first [paper ''c'' 30, paper ''b'' 20, paper ''a'' 10]"
    by (simp add: newest_first_def paper_def)
  show ?thesis
    using srt early_exit_equals_full_scan [OF srt, of 15]
    by (simp add: full_scan_def paper_def result_line_def)
qed

section \<open>Strings\<close>

text \<open>
  A string is a Python \<open>str\<close> whose code points are below 256, one \<open>char\<close> each.
  \<open>is_space\<close> is \<open>str.isspace\<close> on these code points (the whitespace of \<open>str.strip\<close> and
  of the regular expression class \<open>\s\<close>).
\<close>


definition is_space :: "char \<Rightarrow> bool" where
  "is_space c = (of_char c \<in> {9, 10, 11, 12, 13, 28, 29, 30, 31, 32, 133, 160 :: nat})"

text \<open>\<open>str.strip\<close> and \<open>str.startswith\<close>.\<close>

definition strip :: "string \<Rightarrow> string" where
  "strip s = rev (dropWhile is_space (rev (dropWhile is_space s)))"

definition startswith :: "string \<Rightarrow> string \<Rightarrow> bool" where
  "startswith s p = (take (length p) s = p)"

section \<open>bots/kita/kita.py: the conversation memory\<close>

text \<open>
  A turn of the conversation, \<open>{"role": ..., "content": ...}\<close>. The memory of a
  conversation is \<open>deque(maxlen=10)\<close>: appending to a full deque drops its oldest entry.
\<close>

record turn =
  role :: string
  content :: string

definition maxlen :: nat where
  "maxlen = 10"

definition deque_append :: "'a list \<Rightarrow> 'a \<Rightarrow> 'a list" where
  "deque_append d x = drop (Suc (length d) - maxlen) (d @ [x])"

text \<open>
  What \<open>chat.completions.create\<close> does: it raises, or it returns a response with its
  list of choices (each the \<open>message.content\<close> of the choice, \<open>None\<close> when the message or
  its content is missing) and the \<open>usage.total_tokens\<close> (\<open>None\<close> when absent).
\<close>

datatype completion = CallFails | Response "string option list" "int option"

text \<open>The texts the method sends: the quota notice, the model's answer, the error notice.\<close>

datatype reply = TokenLimitNotice | Answer string | ErrorNotice

text \<open>
  The collaborators of the method: the completion call on the message history, whether
  \<open>save_token_usage\<close> succeeds, and whether \<open>reply.send\<close> delivers a text (it raises
  otherwise).
\<close>

record kita_env =
  create :: "turn list \<Rightarrow> completion"
  save_ok :: bool
  send_ok :: "reply \<Rightarrow> bool"

text \<open>
  The state of the bot: \<open>conversation_memory\<close> (a \<open>defaultdict\<close> of deques, keyed by the
  conversation id, which may be \<open>None\<close>) and \<open>token_usage\<close> (a \<open>defaultdict(int)\<close>).
\<close>

record kita =
  conversation_memory :: "conversation_id option \<Rightarrow> turn list"
  token_usage :: "int \<Rightarrow> int"

definition max_tokens :: int where
  "max_tokens = 1000000"

text \<open>
  \<open>reply.send\<close>: the state, the texts delivered, and whether an exception leaves the
  method.
\<close>

definition reply_send :: "kita_env \<Rightarrow> kita \<Rightarrow> reply \<Rightarrow> kita \<times> reply list \<times> bool" where
  "reply_send env st text = (if send_ok env text then (st, [text], False) else (st, [], True))"

definition memory_append :: "kita \<Rightarrow> conversation_id option \<Rightarrow> turn \<Rightarrow> kita" where
  "memory_append st conv_id t =
     st\<lparr>conversation_memory :=
          (conversation_memory st)(conv_id := deque_append (conversation_memory st conv_id) t)\<rparr>"

text \<open>The content stored for the user's turn: the mention is cut off and the rest stripped.\<close>

definition user_content :: "string \<Rightarrow> string" where
  "user_content body =
     (if startswith body ''@**kita**'' then strip (drop (length ''@**kita**'') body)
      else body)"

text \<open>
  \<open>Kita.handle_message_to_openai\<close>. Every exception inside the \<open>try\<close> block (the call
  failing, \<open>choices[0]\<close> on an empty list, the \<open>ValueError\<close> for a missing or blank
  content, a failing save or send) ends in the handler, which sends the error notice.
\<close>

definition handle_message_to_openai ::
  "kita_env \<Rightarrow> kita \<Rightarrow> int \<Rightarrow> string \<Rightarrow> conversation_id option \<Rightarrow> kita \<times> reply list \<times> bool" where
  "handle_message_to_openai env st sender body conv_id =
     (if token_usage st sender > max_tokens then reply_send env st TokenLimitNotice
      else
        let st1 = memory_append st conv_id \<lparr>role = ''user'', content = user_content body\<rparr>;
            messages = conversation_memory st1 conv_id
        in (case create env messages of
              CallFails \<Rightarrow> reply_send env st1 ErrorNotice
            | Response choices usage \<Rightarrow>
                (case choices of
                   [] \<Rightarrow> reply_send env st1 ErrorNotice
                 | choice # others \<Rightarrow>
                     (case choice of
                        None \<Rightarrow> reply_send env st1 ErrorNotice
                      | Some text \<Rightarrow>
                          if text = [] \<or> strip text = [] then reply_send env st1 ErrorNotice
                          else
                            let ai_response = strip text;
                                st2 = memory_append st1 conv_id
                                        \<lparr>role = ''assistant'', content = ai_response\<rparr>;
                                st3 = (case usage of
                                         None \<Rightarrow> st2
                                       | Some total_tokens \<Rightarrow>
                                           st2\<lparr>token_usage := (token_usage st2)
                                                 (sender := token_usage st2 sender + total_tokens)\<rparr>)
                            in if usage \<noteq> None \<and> \<not> save_ok env then reply_send env st3 ErrorNotice
                               else if send_ok env (Answer ai_response)
                               then (st3, [Answer ai_response], False)
                               else reply_send env st3 ErrorNotice))))"

text \<open>The completion call fails or yields no content.\<close>

fun no_reply :: "completion \<Rightarrow> bool" where
  "no_reply CallFails = True"
| "no_reply (Response [] usage) = True"
| "no_reply (Response (None # others) usage) = True"
| "no_reply (Response (Some text # others) usage) = (strip text = [])"

lemma length_deque_append: "length (deque_append d x) = min maxlen (Suc (length d))"
  by (auto simp: deque_append_def maxlen_def)

lemma last_deque_append: "last (deque_append d x) = x"
  by (simp add: deque_append_def maxlen_def)

lemma fst_reply_send: "fst (reply_send env st text) = st"
  by (simp add: reply_send_def)

lemma handle_no_reply:
  assumes "\<not> token_usage st sender > max_tokens"
    and "no_reply (create env (deque_append (conversation_memory st conv_id)
            \<lparr>role = ''user'', content = user_content body\<rparr>))"
  shows "fst (handle_message_to_openai env st sender body conv_id)
           = memory_append st conv_id \<lparr>role = ''user'', content = user_content body\<rparr>"
proof -
  let ?t = "\<lparr>role = ''user'', content = user_content body\<rparr>"
  let ?st1 = "memory_append st conv_id ?t"
  have msgs: "conversation_memory ?st1 conv_id = deque_append (conversation_memory st conv_id) ?t"
    by (simp add: memory_append_def)
  show ?thesis
  proof (cases "create env (deque_append (conversation_memory st conv_id) ?t)")
    case CallFails
    then show ?thesis
      using assms(1) by (simp add: handle_message_to_openai_def Let_def msgs fst_reply_send)
  next
    case (Response choices usage)
    then show ?thesis
      using assms
      by (cases choices; cases "hd choices")
         (auto simp: handle_message_to_openai_def Let_def msgs fst_reply_send)
  qed
qed

text \<open>
  C10. When the sender is within the quota and the completion call fails or yields no
  content, the memory of the conversation after the method is the memory before it
  with the user's turn appended (the call has seen that turn): one entry longer, up
  to the capacity of 10, with the user's turn last. Nothing rolls the append back; the
  other conversations and the token counts are as before.
\<close>

theorem failed_call_keeps_user_turn:
  assumes "token_usage st sender \<le> max_tokens"
    and "no_reply (create env (deque_append (conversation_memory st conv_id)
            \<lparr>role = ''user'', content = user_content body\<rparr>))"
    and "st' = fst (handle_message_to_openai env st sender body conv_id)"
  shows "conversation_memory st' conv_id
           = deque_append (conversation_memory st conv_id)
               \<lparr>role = ''user'', content = user_content body\<rparr> \<and>
         length (conversation_memory st' conv_id)
           = min maxlen (Suc (length (conversation_memory st conv_id))) \<and>
         last (conversation_memory st' conv_id)
           = \<lparr>role = ''user'', content = user_content body\<rparr> \<and>
         (\<forall>other. other \<noteq> conv_id \<longrightarrow>
            conversation_memory st' other = conversation_memory st other) \<and>
         token_usage st' = token_usage st"
proof -
  have "st' = memory_append st conv_id \<lparr>role = ''user'', content = user_content body\<rparr>"
    using handle_no_reply [of st sender env conv_id body] assms by simp
  then show ?thesis
    by (simp add: memory_append_def length_deque_append last_deque_append)
qed


definition failing_env :: kita_env where
  "failing_env = \<lparr>create = (\<lambda>messages. CallFails), save_ok = True, send_ok = (\<lambda>text. True)\<rparr>"

definition fresh_kita :: kita where
  "fresh_kita = \<lparr>conversation_memory = (\<lambda>conv_id. []), token_usage = (\<lambda>sender. 0)\<rparr>"

theorem failed_call_keeps_user_turn_witness:
  "token_usage fresh_kita 42 \<le> max_tokens \<and>
   no_reply (create failing_env (deque_append (conversation_memory fresh_kita None)
      \<lparr>role = ''user'', content = user_content ''@**kita** hello''\<rparr>)) \<and>
   conversation_memory
      (fst (handle_message_to_openai failing_env fresh_kita 42 ''@**kita** hello'' None)) None
     = [\<lparr>role = ''user'', content = ''hello''\<rparr>]"
proof -
  have quota: "token_usage fresh_kita 42 \<le> max_tokens"
    by (simp add: fresh_kita_def max_tokens_def)
  have fails: "no_reply (create failing_env (deque_append (conversation_memory fresh_kita None)
      \<lparr>role = ''user'', content = user_content ''@**kita** hello''\<rparr>))"
    by (simp add: failing_env_def)
  have content: "user_content ''@**kita** hello'' = ''hello''"
    by (simp add: user_content_def startswith_def strip_def is_space_def)
  show ?thesis
    using quota fails failed_call_keeps_user_turn [OF quota fails refl]
    by (simp add: content deque_append_def maxlen_def fresh_kita_def)
qed

section \<open>bots/parser.py: parsing a message\<close>

text \<open>
  The class \<open>\w\<close> of the regular expression, on code points below 256: letters, digits
  and other numeric characters, and the underscore.
\<close>

definition is_word :: "char \<Rightarrow> bool" where
  "is_word c =
     (let n = of_char c :: nat in
        (48 \<le> n \<and> n \<le> 57) \<or> (65 \<le> n \<and> n \<le> 90) \<or> n = 95 \<or> (97 \<le> n \<and> n \<le> 122) \<or>
        n \<in> {170, 178, 179, 181, 185, 186, 188, 189, 190} \<or>
        (192 \<le> n \<and> n \<le> 214) \<or> (216 \<le> n \<and> n \<le> 246) \<or> 248 \<le> n)"

text \<open>
  The pattern of \<open>re.match\<close> is \<open>@[*]{2}\w+[*]{2}\s+(.*)\<close>. \<open>mention_rest\<close> is the text
  after the part \<open>@[*]{2}\w+[*]{2}\<close> when the message starts with it: \<open>\w+\<close> takes the
  longest run of word characters, since the next character must be \<open>*\<close>.
\<close>

definition mention_rest :: "string \<Rightarrow> string option" where
  "mention_rest msg =
     (if \<not> startswith msg ''@**'' then None
      else
        let after_at = drop 3 msg;
            name = takeWhile is_word after_at;
            after_name = dropWhile is_word after_at
        in if name = [] then None
           else if \<not> startswith after_name ''**'' then None
           else Some (drop 2 after_name))"

text \<open>
  \<open>match.group(1)\<close>: \<open>\s+\<close> takes the whitespace that follows (at least one character,
  line breaks included) and \<open>(.*)\<close> the characters up to the next line break, since
  \<open>.\<close> matches no line break. \<open>None\<close> when the pattern does not match.
\<close>

definition mention_group :: "string \<Rightarrow> string option" where
  "mention_group msg =
     (case mention_rest msg of
        None \<Rightarrow> None
      | Some rest \<Rightarrow>
          if takeWhile is_space rest = [] then None
          else Some (takeWhile (\<lambda>c. c \<noteq> CHR 0x0A) (dropWhile is_space rest)))"

text \<open>
  The prompt as the specification words it: the entire remainder after the mention
  marker, stripped.
\<close>

definition spec_prompt :: "string \<Rightarrow> string option" where
  "spec_prompt msg = map_option strip (mention_rest msg)"

text \<open>
  \<open>shlex.split\<close> of the standard library (POSIX mode, \<open>whitespace_split\<close>, no comments),
  as the state machine of \<open>shlex.read_token\<close>: between tokens, inside a word, inside a
  quotation, and after a backslash in a word or in a double quotation. The arguments
  are the state, the token read so far, whether the token had a quotation, the tokens
  finished, and the input left. The input ending inside a quotation or right after a
  backslash is the \<open>ValueError\<close>.
\<close>

datatype lex_state = Blank | InWord | InQuote char | EscapedInWord | EscapedInQuote char

definition shlex_whitespace :: "char \<Rightarrow> bool" where
  "shlex_whitespace c = (c = CHR '' '' \<or> c = CHR 0x09 \<or> c = CHR 0x0D \<or> c = CHR 0x0A)"

definition is_quote :: "char \<Rightarrow> bool" where
  "is_quote c = (c = CHR 0x27 \<or> c = CHR 0x22)"

definition backslash :: char where
  "backslash = CHR 0x5C"

fun shlex_run :: "lex_state \<Rightarrow> string \<Rightarrow> bool \<Rightarrow> string list \<Rightarrow> string \<Rightarrow> py_error + string list" where
  "shlex_run st token quoted tokens [] =
     (case st of
        Blank \<Rightarrow> Inr tokens
      | InWord \<Rightarrow> Inr (if token \<noteq> [] \<or> quoted then tokens @ [token] else tokens)
      | InQuote q \<Rightarrow> Inl (ValueError ''No closing quotation'')
      | EscapedInWord \<Rightarrow> Inl (ValueError ''No escaped character'')
      | EscapedInQuote q \<Rightarrow> Inl (ValueError ''No escaped character''))"
| "shlex_run st token quoted tokens (c # cs) =
     (case st of
        Blank \<Rightarrow>
          if shlex_whitespace c then shlex_run Blank token quoted tokens cs
          else if c = backslash then shlex_run EscapedInWord token quoted tokens cs
          else if is_quote c then shlex_run (InQuote c) token True tokens cs
          else shlex_run InWord [c] quoted tokens cs
      | InWord \<Rightarrow>
          if shlex_whitespace c then
            (if token \<noteq> [] \<or> quoted then shlex_run Blank [] False (tokens @ [token]) cs
             else shlex_run Blank token quoted tokens cs)
          else if is_quote c then shlex_run (InQuote c) token True tokens cs
          else if c = backslash then shlex_run EscapedInWord token quoted tokens cs
          else shlex_run InWord (token @ [c]) quoted tokens cs
      | InQuote q \<Rightarrow>
          if c = q then shlex_run InWord token True tokens cs
          else if c = backslash \<and> q = CHR 0x22 then shlex_run (EscapedInQuote q) token True tokens cs
          else shlex_run (InQuote q) (token @ [c]) True tokens cs
      | EscapedInWord \<Rightarrow> shlex_run InWord (token @ [c]) quoted tokens cs
      | EscapedInQuote q \<Rightarrow>
          shlex_run (InQuote q)
            ((if c \<noteq> backslash \<and> c \<noteq> q then token @ [backslash] else token) @ [c])
            quoted tokens cs)"

definition shlex_split :: "string \<Rightarrow> py_error + string list" where
  "shlex_split s = shlex_run Blank [] False [] s"

text \<open>
  What \<open>parse_zulip_message\<close> returns besides \<open>None\<close>: the free-form prompt
  \<open>{"<prompt>": [prompt]}\<close>, the help dict with the usage text, or the dict of \<open>docopt\<close>.
  \<open>docopt\<close> is a parameter: \<open>None\<close> stands for its \<open>SystemExit\<close>.
\<close>

datatype 'a cmd_args = Prompt "string list" | Help string | Docopt 'a

definition parse_zulip_message ::
  "(string \<Rightarrow> string list \<Rightarrow> 'a option) \<Rightarrow> string \<Rightarrow> string \<Rightarrow> 'a cmd_args option" where
  "parse_zulip_message docopt msg doc =
     (case mention_group msg of
        None \<Rightarrow> None
      | Some group1 \<Rightarrow>
          (case shlex_split (''bot '' @ strip group1) of
             Inl e \<Rightarrow> Some (Prompt [strip group1])
           | Inr tokens \<Rightarrow>
               if ''--help'' \<in> set tokens \<or> ''-h'' \<in> set tokens then Some (Help doc)
               else (case docopt doc (tl tokens) of
                       None \<Rightarrow> Some (Help doc)
                     | Some args \<Rightarrow> Some (Docopt args))))"


text \<open>
  When tokenizing the captured group fails, the parser returns that group, stripped,
  as the prompt. On a message of one line the group is the entire remainder.
\<close>

lemma parse_prompt_fallback:
  "mention_group msg = Some g \<Longrightarrow> shlex_split (''bot '' @ strip g) = Inl e \<Longrightarrow>
     parse_zulip_message docopt msg doc = Some (Prompt [strip g])"
  by (simp add: parse_zulip_message_def)

lemma single_line_group:
  assumes "CHR 0x0A \<notin> set msg" and "mention_group msg = Some g"
  shows "spec_prompt msg = Some (strip g)"
proof -
  from assms(2) obtain rest where r: "mention_rest msg = Some rest"
    and g: "g = takeWhile (\<lambda>c. c \<noteq> CHR 0x0A) (dropWhile is_space rest)"
    by (auto simp: mention_group_def split: option.splits if_splits)
  from r have "set rest \<subseteq> set msg"
    by (auto simp: mention_rest_def Let_def split: if_splits
        dest!: in_set_dropD set_dropWhileD)
  with assms(1) have "CHR 0x0A \<notin> set (dropWhile is_space rest)"
    by (auto dest: set_dropWhileD)
  then have "g = dropWhile is_space rest"
    using g by (auto simp: takeWhile_eq_all_conv)
  then show ?thesis
    using r by (simp add: spec_prompt_def strip_def dropWhile_idem)
qed

text \<open>
  C8 at a message of two lines whose first line has an unbalanced quote: tokenizing
  fails (for the first line as for the entire remainder), and the prompt returned is
  the first line only, not the entire stripped remainder.
\<close>

theorem parse_keeps_first_line_only:
  "parse_zulip_message docopt (''@**kita** it's'' @ [CHR 0x0A] @ ''more'') doc
     = Some (Prompt [''it's'']) \<and>
   spec_prompt (''@**kita** it's'' @ [CHR 0x0A] @ ''more'')
     = Some (''it's'' @ [CHR 0x0A] @ ''more'') \<and>
   shlex_split (''bot it's'') = Inl (ValueError ''No closing quotation'') \<and>
   shlex_split (''bot it's'' @ [CHR 0x0A] @ ''more'') = Inl (ValueError ''No closing quotation'')"
  by (simp add: parse_zulip_message_def mention_group_def mention_rest_def spec_prompt_def
      startswith_def is_word_def is_space_def strip_def shlex_split_def shlex_whitespace_def
      is_quote_def backslash_def)

section \<open>bots/arxiv/requests.py: saving and loading the request list\<close>

text \<open>
  The value \<open>json.load\<close> returns and \<open>json.dump\<close> writes: \<open>null\<close>, a boolean, an integer, a
  string, an array, or an object (a dict: in the list of entries a key stands once). A
  number with a fraction or an exponent (a Python \<open>float\<close>) is not in the model. A
  tuple is written as an array.
\<close>

datatype json =
  JNull
  | JBool bool
  | JInt int
  | JStr string
  | JArr "json list"
  | JObj "(string \<times> json) list"

text \<open>
  The file at the path. \<open>StatFails\<close>: the existence test itself raises, since
  \<open>Path.exists\<close> passes on every \<open>OSError\<close> of \<open>stat\<close> other than \<open>ENOENT\<close>, \<open>ENOTDIR\<close>,
  \<open>EBADF\<close> and \<open>ELOOP\<close> (a name longer than the file system allows, a directory of the
  path that may not be searched). In the other states the test returns: the file does
  not exist; it exists and opening or reading it raises \<open>OSError\<close>; its text is no JSON
  document; or \<open>json.load\<close> returns the value.
\<close>

datatype db_file = StatFails | Missing | Unreadable | Undecodable | Holds json

text \<open>
  Two computations one after the other: the first exception raised is the exception of
  the pair, and \<open>Outside\<close> is the result when nothing is raised and one is \<open>Outside\<close>.
\<close>

fun both :: "'a outcome \<Rightarrow> 'b outcome \<Rightarrow> ('a \<times> 'b) outcome" where
  "both (Raises e) b = Raises e"
| "both (Returns x) (Raises e) = Raises e"
| "both Outside (Raises e) = Raises e"
| "both (Returns x) (Returns y) = Returns (x, y)"
| "both (Returns x) Outside = Outside"
| "both Outside (Returns y) = Outside"
| "both Outside Outside = Outside"

fun and_then :: "'a outcome \<Rightarrow> ('a \<Rightarrow> 'b outcome) \<Rightarrow> 'b outcome" where
  "and_then (Returns x) f = f x"
| "and_then (Raises e) f = Raises e"
| "and_then Outside f = Outside"

fun on_result :: "('a \<Rightarrow> 'b) \<Rightarrow> 'a outcome \<Rightarrow> 'b outcome" where
  "on_result f (Returns x) = Returns (f x)"
| "on_result f (Raises e) = Raises e"
| "on_result f Outside = Outside"

text \<open>
  \<open>data[k]\<close> and \<open>data.get(k, d)\<close> with a string \<open>k\<close>: only a dict has them; a missing key
  is the \<open>KeyError\<close> of the first and the default of the second.
\<close>

fun getitem :: "json \<Rightarrow> string \<Rightarrow> json outcome" where
  "getitem (JObj entries) k =
     (case map_of entries k of None \<Rightarrow> Raises (KeyError k) | Some v \<Rightarrow> Returns v)"
| "getitem other k = Raises TypeError"

fun get_default :: "json \<Rightarrow> string \<Rightarrow> json \<Rightarrow> json outcome" where
  "get_default (JObj entries) k d =
     Returns (case map_of entries k of None \<Rightarrow> d | Some v \<Rightarrow> v)"
| "get_default other k d = Raises AttributeError"

text \<open>
  A value read into a field of an annotated type. Python checks nothing here, so a
  value of another type is \<open>Outside\<close>. \<open>tuple(x)\<close> takes the elements of a list, the
  characters of a string and the keys of a dict, and raises \<open>TypeError\<close> otherwise.
\<close>

fun strs_of :: "json list \<Rightarrow> string list option" where
  "strs_of [] = Some []"
| "strs_of (JStr s # js) = map_option ((#) s) (strs_of js)"
| "strs_of (other # js) = None"

fun as_str :: "json \<Rightarrow> string outcome" where
  "as_str (JStr s) = Returns s"
| "as_str other = Outside"

fun as_int :: "json \<Rightarrow> int outcome" where
  "as_int (JInt n) = Returns n"
| "as_int other = Outside"

fun as_optional_str :: "json \<Rightarrow> string option outcome" where
  "as_optional_str JNull = Returns None"
| "as_optional_str (JStr s) = Returns (Some s)"
| "as_optional_str other = Outside"

fun as_recipients :: "json \<Rightarrow> recipients outcome" where
  "as_recipients (JStr s) = Returns (ToOne s)"
| "as_recipients (JArr js) =
     (case strs_of js of None \<Rightarrow> Outside | Some xs \<Rightarrow> Returns (ToMany xs))"
| "as_recipients other = Outside"

fun py_tuple :: "json \<Rightarrow> string list outcome" where
  "py_tuple (JArr js) = (case strs_of js of None \<Rightarrow> Outside | Some xs \<Rightarrow> Returns xs)"
| "py_tuple (JStr s) = Returns (map (\<lambda>c. [c]) s)"
| "py_tuple (JObj entries) = Returns (map fst entries)"
| "py_tuple other = Raises TypeError"

text \<open>\<open>Message.to_dict\<close> and \<open>Message.from_dict\<close>.\<close>

definition message_to_dict :: "message \<Rightarrow> json" where
  "message_to_dict m =
     JObj [(''type'', JStr (msg_type m)),
           (''subject'', case subject m of None \<Rightarrow> JNull | Some s \<Rightarrow> JStr s),
           (''to'', case to m of ToMany xs \<Rightarrow> JArr (map JStr xs) | ToOne s \<Rightarrow> JStr s)]"

definition message_from_dict :: "json \<Rightarrow> message outcome" where
  "message_from_dict data =
     on_result (\<lambda>(t, s, r). \<lparr>msg_type = t, subject = s, to = r\<rparr>)
       (both (and_then (getitem data ''type'') as_str)
       (both (and_then (get_default data ''subject'' JNull) as_optional_str)
             (and_then (getitem data ''to'') as_recipients)))"

text \<open>
  \<open>Request.to_dict\<close> and \<open>Request.from_dict\<close>. \<open>fresh\<close> is the \<open>str(uuid.uuid4())\<close> that
  \<open>from_dict\<close> computes as the default of \<open>"uuid"\<close>.
\<close>

definition to_dict :: "request \<Rightarrow> json" where
  "to_dict r =
     JObj [(''id'', JArr (map JStr (id_req r))),
           (''uuid'', JStr (uuid r)),
           (''query'', JStr (query r)),
           (''owner_id'', JInt (owner_id r)),
           (''message'', message_to_dict (message r))]"

definition from_dict :: "string \<Rightarrow> json \<Rightarrow> request outcome" where
  "from_dict fresh data =
     on_result
       (\<lambda>(u, i, q, ow, m). \<lparr>id_req = i, uuid = u, query = q, owner_id = ow, message = m\<rparr>)
       (both (and_then (get_default data ''uuid'' (JStr fresh)) as_str)
       (both (and_then (getitem data ''id'') py_tuple)
       (both (and_then (getitem data ''query'') as_str)
       (both (and_then (getitem data ''owner_id'') as_int)
             (and_then (getitem data ''message'') message_from_dict)))))"

text \<open>
  The dict comprehension of \<open>load_from_file\<close>,
  \<open>{data["uuid"]: Request.from_dict(data) for data in raw}\<close>: iterating over \<open>raw\<close> (the
  elements of a list, the keys of a dict, the characters of a string), then for each
  \<open>data\<close> the key, the request, and the store under that key, which hashes the key (a
  list or a dict cannot be hashed; a key that is no string is outside the annotation
  \<open>dict[str, Request]\<close>).
\<close>

fun iterate :: "json \<Rightarrow> json list outcome" where
  "iterate (JArr js) = Returns js"
| "iterate (JObj entries) = Returns (map (\<lambda>e. JStr (fst e)) entries)"
| "iterate (JStr s) = Returns (map (\<lambda>c. JStr [c]) s)"
| "iterate other = Raises TypeError"

fun hash_key :: "json \<Rightarrow> string outcome" where
  "hash_key (JStr s) = Returns s"
| "hash_key (JArr js) = Raises TypeError"
| "hash_key (JObj entries) = Raises TypeError"
| "hash_key other = Outside"

definition load_entry :: "string \<Rightarrow> json \<Rightarrow> (request \<times> string) outcome" where
  "load_entry fresh data =
     and_then (getitem data ''uuid'') (\<lambda>key. both (from_dict fresh data) (hash_key key))"

fun load_entries :: "string \<Rightarrow> json list \<Rightarrow> request_list outcome \<Rightarrow> request_list outcome" where
  "load_entries fresh [] acc = acc"
| "load_entries fresh (data # rest) acc =
     (case both acc (load_entry fresh data) of
        Raises e \<Rightarrow> Raises e
      | Returns (requests, r, key) \<Rightarrow>
          load_entries fresh rest (Returns (dict_set requests key r))
      | Outside \<Rightarrow> load_entries fresh rest Outside)"

definition requests_of_raw :: "string \<Rightarrow> json \<Rightarrow> request_list outcome" where
  "requests_of_raw fresh raw =
     and_then (iterate raw) (\<lambda>items. load_entries fresh items (Returns []))"

text \<open>
  \<open>RequestList.load_from_file\<close>. \<open>file_path.exists()\<close> stands before the \<open>try\<close>, so what
  it raises leaves the method. Past it, the result is the empty request list for a
  missing file and in both \<open>except\<close> branches.
\<close>

definition load_from_file :: "string \<Rightarrow> db_file \<Rightarrow> request_list outcome" where
  "load_from_file fresh f =
     (case f of
        StatFails \<Rightarrow> Raises OSError
      | Missing \<Rightarrow> Returns []
      | Unreadable \<Rightarrow> Returns []
      | Undecodable \<Rightarrow> Returns []
      | Holds raw \<Rightarrow>
          (case requests_of_raw fresh raw of
             Raises e \<Rightarrow> Returns []
           | Returns requests \<Rightarrow> Returns requests
           | Outside \<Rightarrow> Outside))"

text \<open>
  \<open>RequestList.save_to_file\<close> writes the list of the requests' dicts. Its exceptions are
  logged and dropped: when opening the file fails the file stays as it was, and when
  the write fails after that, the file is left in some state.
\<close>

datatype write_outcome = Written | OpenFails | WriteFails db_file

definition save_to_file :: "write_outcome \<Rightarrow> request_list \<Rightarrow> db_file \<Rightarrow> db_file" where
  "save_to_file w rl old =
     (case w of
        Written \<Rightarrow> Holds (JArr (map to_dict (dict_values rl)))
      | OpenFails \<Rightarrow> old
      | WriteFails left \<Rightarrow> left)"

subsection \<open>What was saved is what is loaded\<close>

lemma both_Returns:
  "both a b = Returns p \<longleftrightarrow> (\<exists>x y. a = Returns x \<and> b = Returns y \<and> p = (x, y))"
  by (cases a; cases b) auto

lemma and_then_Returns:
  "and_then a f = Returns y \<longleftrightarrow> (\<exists>x. a = Returns x \<and> f x = Returns y)"
  by (cases a) auto

lemma on_result_Returns:
  "on_result f a = Returns y \<longleftrightarrow> (\<exists>x. a = Returns x \<and> y = f x)"
  by (cases a) auto

lemma strs_of_map_JStr: "strs_of (map JStr xs) = Some xs"
  by (induction xs) auto

lemma message_round_trip: "message_from_dict (message_to_dict m) = Returns m"
  by (cases m; cases "subject m"; cases "to m")
     (auto simp: message_from_dict_def message_to_dict_def strs_of_map_JStr)

lemma request_round_trip: "from_dict fresh (to_dict r) = Returns r"
  by (cases r) (simp add: from_dict_def to_dict_def strs_of_map_JStr message_round_trip)

lemma load_entry_to_dict: "load_entry fresh (to_dict r) = Returns (r, uuid r)"
proof -
  have "getitem (to_dict r) ''uuid'' = Returns (JStr (uuid r))"
    by (simp add: to_dict_def)
  then show ?thesis
    by (simp add: load_entry_def request_round_trip)
qed

lemma load_entries_to_dict:
  "load_entries fresh (map to_dict rs) (Returns acc)
     = Returns (fold (\<lambda>r d. dict_set d (uuid r) r) rs acc)"
  by (induction rs arbitrary: acc) (simp_all add: load_entry_to_dict)

text \<open>Every entry of the request list is stored under the uuid of its request.\<close>

definition keyed :: "request_list \<Rightarrow> bool" where
  "keyed rl = (distinct (dict_keys rl) \<and> list_all (\<lambda>e. uuid (snd e) = fst e) rl)"

lemma fold_dict_set_keyed:
  "distinct (dict_keys (acc @ rl)) \<Longrightarrow> list_all (\<lambda>e. uuid (snd e) = fst e) rl \<Longrightarrow>
     fold (\<lambda>r d. dict_set d (uuid r) r) (dict_values rl) acc = acc @ rl"
proof (induction rl arbitrary: acc)
  case Nil
  then show ?case by (simp add: dict_values_def)
next
  case (Cons e rl)
  obtain k r where e: "e = (k, r)" by (cases e)
  from Cons.prems e have u: "uuid r = k" by simp
  from Cons.prems e have fresh: "k \<notin> set (dict_keys acc)"
    by (auto simp: dict_keys_def)
  have d: "distinct (dict_keys ((acc @ [(k, r)]) @ rl))"
    using Cons.prems(1) e by (simp add: dict_keys_def)
  have "fold (\<lambda>r d. dict_set d (uuid r) r) (dict_values (e # rl)) acc
          = fold (\<lambda>r d. dict_set d (uuid r) r) (dict_values rl) (acc @ [(k, r)])"
    using e u by (simp add: dict_values_def dict_set_fresh [OF fresh])
  also have "\<dots> = (acc @ [(k, r)]) @ rl"
    using Cons.IH [OF d] Cons.prems(2) by simp
  finally show ?case using e by simp
qed

lemma keyed_round_trip:
  "keyed rl \<Longrightarrow> load_from_file fresh (save_to_file Written rl old) = Returns rl"
  using fold_dict_set_keyed [of "[]" rl]
  by (simp add: keyed_def load_from_file_def save_to_file_def requests_of_raw_def
      load_entries_to_dict)

subsection \<open>The states of the request list\<close>

text \<open>
  The request lists the public operations produce: the empty one, one returned by
  \<open>load_from_file\<close> from any file, and the ones \<open>add\<close> and \<open>remove\<close> leave.
\<close>

inductive reachable :: "request_list \<Rightarrow> bool" where
  initial: "reachable []"
| loaded: "load_from_file fresh f = Returns rl \<Longrightarrow> reachable rl"
| added: "reachable rl \<Longrightarrow> reachable (snd (add rl r))"
| removed: "reachable rl \<Longrightarrow> reachable (snd (remove_req rl k))"

text \<open>No two stored requests share a conversation key.\<close>

definition unique_conversations :: "request_list \<Rightarrow> bool" where
  "unique_conversations rl = distinct (map id_req (dict_values rl))"

lemma keyed_dict_set: "keyed rl \<Longrightarrow> keyed (dict_set rl (uuid r) r)"
proof -
  have entries: "list_all P d \<Longrightarrow> P (k, v) \<Longrightarrow> list_all P (dict_set d k v)" for P d k and v :: request
    by (induction d) auto
  assume "keyed rl"
  then show ?thesis
    by (auto simp: keyed_def dict_keys_dict_set intro: entries)
qed

lemma keyed_add: "keyed rl \<Longrightarrow> keyed (snd (add rl r))"
  by (simp add: add_def keyed_dict_set)

lemma keyed_remove: "keyed rl \<Longrightarrow> keyed (snd (remove_req rl k))"
  by (auto simp: remove_req_def keyed_def dict_del_def dict_keys_def distinct_map_filter
      list_all_iff)

lemma load_entry_key: "load_entry fresh data = Returns (r, k) \<Longrightarrow> uuid r = k"
proof -
  assume a: "load_entry fresh data = Returns (r, k)"
  then obtain key where g: "getitem data ''uuid'' = Returns key"
    and f: "from_dict fresh data = Returns r" and h: "hash_key key = Returns k"
    by (auto simp: load_entry_def and_then_Returns both_Returns)
  from h have key: "key = JStr k" by (cases key) auto
  from g obtain entries where d: "data = JObj entries" by (cases data) auto
  from g d key have m: "map_of entries ''uuid'' = Some (JStr k)"
    by (auto split: option.splits)
  from f d m show ?thesis
    by (auto simp: from_dict_def on_result_Returns both_Returns and_then_Returns)
qed

lemma load_entries_Outside: "load_entries fresh items Outside \<noteq> Returns rl"
proof (induction items)
  case Nil
  show ?case by simp
next
  case (Cons data rest)
  then show ?case by (cases "load_entry fresh data") simp_all
qed

lemma load_entries_keyed:
  "load_entries fresh items (Returns acc) = Returns rl \<Longrightarrow> keyed acc \<Longrightarrow> keyed rl"
proof (induction items arbitrary: acc)
  case Nil
  then show ?case by simp
next
  case (Cons data rest)
  show ?case
  proof (cases "load_entry fresh data")
    case (Returns p)
    obtain r k where p: "p = (r, k)" by (cases p)
    have u: "uuid r = k" using load_entry_key Returns p by simp
    have "load_entries fresh rest (Returns (dict_set acc k r)) = Returns rl"
      using Cons.prems(1) Returns p by simp
    moreover have "keyed (dict_set acc k r)"
      using keyed_dict_set [OF Cons.prems(2), of r] u by simp
    ultimately show ?thesis by (rule Cons.IH)
  next
    case (Raises e)
    with Cons.prems show ?thesis by simp
  next
    case Outside
    with Cons.prems show ?thesis by (simp add: load_entries_Outside)
  qed
qed

lemma load_from_file_keyed: "load_from_file fresh f = Returns rl \<Longrightarrow> keyed rl"
proof (cases f)
  case (Holds raw)
  assume a: "load_from_file fresh f = Returns rl"
  show ?thesis
  proof (cases "requests_of_raw fresh raw")
    case (Returns requests)
    with a Holds have "requests = rl" by (simp add: load_from_file_def)
    with Returns obtain items where "load_entries fresh items (Returns []) = Returns rl"
      by (auto simp: requests_of_raw_def and_then_Returns)
    then show ?thesis by (rule load_entries_keyed) (simp add: keyed_def dict_keys_def)
  next
    case (Raises e)
    with a Holds show ?thesis by (simp add: load_from_file_def keyed_def dict_keys_def)
  next
    case Outside
    with a Holds show ?thesis by (simp add: load_from_file_def)
  qed
qed (auto simp: load_from_file_def keyed_def dict_keys_def)

lemma reachable_keyed: "reachable rl \<Longrightarrow> keyed rl"
proof (induction rule: reachable.induct)
  case initial
  show ?case by (simp add: keyed_def dict_keys_def)
next
  case (loaded fresh f rl)
  then show ?case by (rule load_from_file_keyed)
next
  case (added rl r)
  then show ?case by (simp add: keyed_add)
next
  case (removed rl k)
  then show ?case by (simp add: keyed_remove)
qed

text \<open>
  C6. For every request list the operations produce, in whatever order its requests
  were added, a successful \<open>save_to_file\<close> followed by \<open>load_from_file\<close> of that file
  returns the same request list: the same uuids, conversation keys, queries, owners
  and reply targets.
\<close>

theorem save_load_round_trip:
  "reachable rl \<Longrightarrow> load_from_file fresh (save_to_file Written rl old) = Returns rl"
  by (simp add: reachable_keyed keyed_round_trip)

lemma values_dict_set:
  "set (dict_values (dict_set d k v)) \<subseteq> insert v (set (dict_values d))"
proof (induction d)
  case Nil
  show ?case by (simp add: dict_values_def)
next
  case (Cons e d)
  obtain k' v' where e: "e = (k', v')" by (cases e)
  show ?case
  proof (cases "k' = k")
    case True
    then show ?thesis using e by (auto simp: dict_values_def)
  next
    case False
    then show ?thesis using e Cons.IH by (auto simp: dict_values_def)
  qed
qed

lemma unique_dict_set:
  assumes "unique_conversations d" and "id_req r \<notin> id_req ` set (dict_values d)"
  shows "unique_conversations (dict_set d k r)"
  using assms
proof (induction d)
  case Nil
  show ?case by (simp add: unique_conversations_def dict_values_def)
next
  case (Cons e d)
  obtain k' v' where e: "e = (k', v')" by (cases e)
  have tail: "unique_conversations d" and new: "id_req r \<notin> id_req ` set (dict_values d)"
    and head: "id_req v' \<notin> id_req ` set (dict_values d)" and diff: "id_req v' \<noteq> id_req r"
    using Cons.prems e by (auto simp: unique_conversations_def dict_values_def)
  show ?case
  proof (cases "k' = k")
    case True
    then show ?thesis
      using tail new e by (simp add: unique_conversations_def dict_values_def image_image)
  next
    case False
    have ih: "unique_conversations (dict_set d k r)"
      using Cons.IH [OF tail new] .
    have "id_req v' \<notin> id_req ` set (dict_values (dict_set d k r))"
      using values_dict_set [of d k r] head diff by auto
    then show ?thesis
      using False ih e by (simp add: unique_conversations_def dict_values_def image_image)
  qed
qed

lemma unique_add: "unique_conversations rl \<Longrightarrow> unique_conversations (snd (add rl r))"
proof (cases "list_ex (\<lambda>x. request_eq x r) (dict_values rl)")
  case True
  assume "unique_conversations rl"
  with True show ?thesis by (simp add: add_def)
next
  case False
  assume u: "unique_conversations rl"
  from False have "id_req r \<notin> id_req ` set (dict_values rl)"
    by (force simp: list_ex_iff request_eq_def)
  with u have "unique_conversations (dict_set rl (uuid r) r)"
    by (rule unique_dict_set)
  with False show ?thesis by (simp add: add_def)
qed

lemma unique_remove: "unique_conversations rl \<Longrightarrow> unique_conversations (snd (remove_req rl k))"
  by (simp add: remove_req_def unique_conversations_def dict_del_def dict_values_def
      distinct_map_filter)

text \<open>
  The request lists produced from the empty one by \<open>add\<close>, \<open>remove\<close> and by loading a
  file that \<open>save_to_file\<close> wrote from such a request list.
\<close>

inductive reachable_own :: "request_list \<Rightarrow> bool" where
  own_initial: "reachable_own []"
| own_added: "reachable_own rl \<Longrightarrow> reachable_own (snd (add rl r))"
| own_removed: "reachable_own rl \<Longrightarrow> reachable_own (snd (remove_req rl k))"
| own_reloaded:
    "reachable_own rl \<Longrightarrow> load_from_file fresh (save_to_file Written rl old) = Returns rl' \<Longrightarrow>
       reachable_own rl'"

lemma reachable_own_reachable: "reachable_own rl \<Longrightarrow> reachable rl"
  by (induction rule: reachable_own.induct) (auto intro: reachable.intros)

text \<open>
  C2, as the code has it. In every request list produced from the empty one by \<open>add\<close>,
  \<open>remove\<close> and by loading a file that \<open>save_to_file\<close> wrote from such a list, no two
  requests share a conversation key. \<open>load_from_file\<close> itself checks nothing.
\<close>

theorem own_states_unique:
  "reachable_own rl \<Longrightarrow> unique_conversations rl"
proof (induction rule: reachable_own.induct)
  case own_initial
  show ?case by (simp add: unique_conversations_def dict_values_def)
next
  case (own_added rl r)
  then show ?case by (simp add: unique_add)
next
  case (own_removed rl k)
  then show ?case by (simp add: unique_remove)
next
  case (own_reloaded rl fresh old rl')
  have "load_from_file fresh (save_to_file Written rl old) = Returns rl"
    using own_reloaded.hyps(1) by (simp add: reachable_own_reachable reachable_keyed keyed_round_trip)
  with own_reloaded show ?case by simp
qed

text \<open>
  Once the existence test has returned, \<open>load_from_file\<close> raises nothing, and it returns
  the empty request list when the file is missing, cannot be read, is no JSON
  document, or holds a value from which building the requests raises.
\<close>

lemma load_after_existence_test:
  "f \<noteq> StatFails \<Longrightarrow>
   \<not> raised (load_from_file fresh f) \<and>
   ((f = Missing \<or> f = Unreadable \<or> f = Undecodable \<or>
     (\<exists>raw. f = Holds raw \<and> raised (requests_of_raw fresh raw)))
    \<longrightarrow> load_from_file fresh f = Returns [])"
proof -
  assume ok: "f \<noteq> StatFails"
  have "\<not> raised (load_from_file fresh f)"
    using ok by (cases f) (auto simp: load_from_file_def split: outcome.splits)
  moreover have "load_from_file fresh (Holds raw) = Returns []"
    if "raised (requests_of_raw fresh raw)" for raw
    using that by (cases "requests_of_raw fresh raw") (auto simp: load_from_file_def)
  ultimately show ?thesis
    by (auto simp: load_from_file_def)
qed

text \<open>
  C7 at a path whose existence test raises (a file name of 300 characters, say): the
  \<open>OSError\<close> of \<open>file_path.exists()\<close> is raised before the \<open>try\<close> block is entered, and
  \<open>load_from_file\<close> passes it to its caller instead of returning the empty request
  list.
\<close>

theorem load_raises_when_existence_test_raises:
  "load_from_file fresh StatFails = Raises OSError \<and>
   raised (load_from_file fresh StatFails) \<and>
   load_from_file fresh StatFails \<noteq> Returns []"
  by (simp add: load_from_file_def)

subsection \<open>Concrete request lists and files\<close>

definition request_ml :: request where
  "request_ml = example_request ''u1'' [''research'', ''ml''] ''cat:cs.LG'' 42"

definition request_ai :: request where
  "request_ai = example_request ''u2'' [''research'', ''ai''] ''all:GAN'' 7"

lemma reachable_two: "reachable [(''u1'', request_ml), (''u2'', request_ai)]"
proof -
  have one: "snd (add [] request_ml) = [(''u1'', request_ml)]"
    by (simp add: add_def dict_values_def request_ml_def example_request_def)
  have two: "snd (add [(''u1'', request_ml)] request_ai)
               = [(''u1'', request_ml), (''u2'', request_ai)]"
    by (simp add: add_def dict_values_def request_eq_def request_ml_def request_ai_def
        example_request_def)
  have "reachable (snd (add [] request_ml))"
    by (rule reachable.added) (rule reachable.initial)
  then have "reachable (snd (add [(''u1'', request_ml)] request_ai))"
    unfolding one by (rule reachable.added)
  then show ?thesis unfolding two .
qed

theorem save_load_round_trip_witness:
  "reachable [(''u1'', request_ml), (''u2'', request_ai)] \<and>
   load_from_file ''fresh''
      (save_to_file Written [(''u1'', request_ml), (''u2'', request_ai)] Missing)
     = Returns [(''u1'', request_ml), (''u2'', request_ai)]"
  using reachable_two save_load_round_trip [OF reachable_two, of "''fresh''" Missing]
  by simp

lemma reachable_own_two: "reachable_own [(''u1'', request_ml), (''u2'', request_ai)]"
proof -
  have one: "snd (add [] request_ml) = [(''u1'', request_ml)]"
    by (simp add: add_def dict_values_def request_ml_def example_request_def)
  have two: "snd (add [(''u1'', request_ml)] request_ai)
               = [(''u1'', request_ml), (''u2'', request_ai)]"
    by (simp add: add_def dict_values_def request_eq_def request_ml_def request_ai_def
        example_request_def)
  have "reachable_own (snd (add [] request_ml))"
    by (rule reachable_own.own_added) (rule reachable_own.own_initial)
  then have "reachable_own (snd (add [(''u1'', request_ml)] request_ai))"
    unfolding one by (rule reachable_own.own_added)
  then show ?thesis unfolding two .
qed

theorem own_states_unique_witness:
  "reachable_own [(''u1'', request_ml), (''u2'', request_ai)] \<and>
   unique_conversations [(''u1'', request_ml), (''u2'', request_ai)]"
  using reachable_own_two own_states_unique [OF reachable_own_two]
  by simp

text \<open>
  A file that holds two records with the conversation key \<open>("research", "ml")\<close> under
  two uuids.
\<close>

definition duplicate_snapshot :: json where
  "duplicate_snapshot =
     JArr [JObj [(''id'', JArr [JStr ''research'', JStr ''ml'']),
                 (''uuid'', JStr ''u1''),
                 (''query'', JStr ''cat:cs.LG''),
                 (''owner_id'', JInt 42),
                 (''message'', JObj [(''type'', JStr ''stream''),
                                     (''subject'', JStr ''ml''),
                                     (''to'', JStr ''research'')])],
           JObj [(''id'', JArr [JStr ''research'', JStr ''ml'']),
                 (''uuid'', JStr ''u2''),
                 (''query'', JStr ''all:GAN''),
                 (''owner_id'', JInt 7),
                 (''message'', JObj [(''type'', JStr ''stream''),
                                     (''subject'', JStr ''ml''),
                                     (''to'', JStr ''research'')])]]"

definition duplicate_requests :: request_list where
  "duplicate_requests =
     [(''u1'', example_request ''u1'' [''research'', ''ml''] ''cat:cs.LG'' 42),
      (''u2'', example_request ''u2'' [''research'', ''ml''] ''all:GAN'' 7)]"

lemma load_duplicate_snapshot:
  "load_from_file ''fresh'' (Holds duplicate_snapshot) = Returns duplicate_requests"
  by (simp add: load_from_file_def requests_of_raw_def load_entry_def from_dict_def
      message_from_dict_def duplicate_snapshot_def duplicate_requests_def
      example_request_def example_reply_def)

text \<open>
  The claim C2 as it is worded fails for a request list loaded from a file: the two
  records of \<open>duplicate_snapshot\<close> are both stored.
\<close>

theorem loaded_state_shares_conversation_key:
  "load_from_file ''fresh'' (Holds duplicate_snapshot) = Returns duplicate_requests \<and>
   reachable duplicate_requests \<and>
   \<not> unique_conversations duplicate_requests"
proof -
  have "reachable duplicate_requests"
    using load_duplicate_snapshot by (rule reachable.loaded)
  moreover have "\<not> unique_conversations duplicate_requests"
    by (simp add: unique_conversations_def dict_values_def duplicate_requests_def
        example_request_def)
  ultimately show ?thesis
    using load_duplicate_snapshot by simp
qed

text \<open>A file whose single record has no \<open>"id"\<close>.\<close>

definition broken_snapshot :: json where
  "broken_snapshot = JArr [JObj [(''uuid'', JStr ''u1''), (''query'', JStr ''cat:cs.LG'')]]"

lemma load_broken_snapshot:
  "requests_of_raw ''fresh'' broken_snapshot = Raises (KeyError ''id'') \<and>
   load_from_file ''fresh'' (Holds broken_snapshot) = Returns [] \<and>
   load_from_file ''fresh'' Missing = Returns [] \<and>
   load_from_file ''fresh'' Undecodable = Returns []"
proof -
  have r: "requests_of_raw ''fresh'' broken_snapshot = Raises (KeyError ''id'')"
    by (simp add: requests_of_raw_def load_entry_def from_dict_def broken_snapshot_def)
  show ?thesis
    using r load_after_existence_test [of "Holds broken_snapshot" "''fresh''"]
      load_after_existence_test [of Missing "''fresh''"]
      load_after_existence_test [of Undecodable "''fresh''"]
    by simp
qed

end
